theory Spec2Isabelle
  imports Main
begin

section \<open>DeploymentConfig workloads of the Argo CD operator\<close>

text \<open>
  A shallow embedding of \<^verbatim>\<open>pkg/workloads/deploymentConfig.go\<close>. Go pointers that may be
  nil are options, the in-place mutation of the object under construction is explicit
  state passing, the cluster behind the client is an explicit state, and every call made
  on the client or on a mutation callback is appended to a log, so that statements about
  which calls are made (and with which arguments) are statements about that log.
\<close>

subsection \<open>Errors\<close>

text \<open>
  Go's \<^verbatim>\<open>error\<close> values. The source tells them apart only through
  \<^verbatim>\<open>errors.IsNotFound\<close> of k8s.io/apimachinery, and builds one itself with
  \<^verbatim>\<open>fmt.Errorf\<close>. An error is
  \<^item> an API status error (\<^verbatim>\<open>*errors.StatusError\<close>), with the reason, the HTTP code and the
    message of its status;
  \<^item> a plain message (a transport failure, the result of \<^verbatim>\<open>errors.New\<close> or of
    \<^verbatim>\<open>fmt.Errorf\<close> without \<^verbatim>\<open>%w\<close>);
  \<^item> an error that wraps another one under a message of its own (\<^verbatim>\<open>fmt.Errorf\<close> with
    \<^verbatim>\<open>%w\<close>);
  \<^item> several errors joined into one (\<^verbatim>\<open>errors.Join\<close>, which never joins none).
  A status reason is a string in Go (\<^verbatim>\<open>type StatusReason string\<close>), the code an
  \<^verbatim>\<open>int32\<close> that is only compared.
\<close>

type_synonym StatusReason = string

abbreviation (input) StatusReasonUnknown :: StatusReason where
  "StatusReasonUnknown \<equiv> []"

abbreviation (input) StatusReasonNotFound :: StatusReason where
  "StatusReasonNotFound \<equiv> ''NotFound''"

abbreviation (input) StatusReasonAlreadyExists :: StatusReason where
  "StatusReasonAlreadyExists \<equiv> ''AlreadyExists''"

text \<open>
  The table \<^verbatim>\<open>knownReasons\<close> of apimachinery: every reason the package defines, the unknown
  (empty) reason apart.
\<close>

definition knownReasons :: "StatusReason list" where
  "knownReasons =
     [''Unauthorized'', ''Forbidden'', StatusReasonNotFound, StatusReasonAlreadyExists,
      ''Conflict'', ''Gone'', ''Invalid'', ''ServerTimeout'', ''Timeout'', ''TooManyRequests'',
      ''BadRequest'', ''MethodNotAllowed'', ''NotAcceptable'', ''RequestEntityTooLarge'',
      ''UnsupportedMediaType'', ''InternalError'', ''Expired'', ''ServiceUnavailable'']"

datatype error =
    StatusError StatusReason int string
  | errorString string
  | wrapError string error
  | joinError error "error list"

text \<open>
  The \<^verbatim>\<open>Error()\<close> method: the message, which is what \<^verbatim>\<open>%s\<close> prints. Joined errors
  print their messages on a line each.
\<close>

fun Error :: "error \<Rightarrow> string" where
  "Error (StatusError reason code msg) = msg"
| "Error (errorString msg) = msg"
| "Error (wrapError msg err) = msg"
| "Error (joinError err errs) = Error err @ concat (map (\<lambda>e. CHR 0x0A # Error e) errs)"

text \<open>
  The search of \<^verbatim>\<open>errors.As\<close> for an API status: the error itself, else what it wraps;
  among joined errors, the first one, in order and depth first, that holds a status.
\<close>

fun apiStatus :: "error \<Rightarrow> (StatusReason \<times> int) option" where
  "apiStatus (StatusError reason code msg) = Some (reason, code)"
| "apiStatus (errorString msg) = None"
| "apiStatus (wrapError msg err) = apiStatus err"
| "apiStatus (joinError err errs) =
     (case filter (\<lambda>found. found \<noteq> None) (map apiStatus (err # errs)) of
        [] \<Rightarrow> None
      | found # rest \<Rightarrow> found)"

definition reasonAndCodeForError :: "error \<Rightarrow> StatusReason \<times> int" where
  "reasonAndCodeForError err =
     (case apiStatus err of Some status \<Rightarrow> status | None \<Rightarrow> (StatusReasonUnknown, 0))"

text \<open>
  \<^verbatim>\<open>errors.IsNotFound\<close>: the reason of the status is NotFound, or the reason is none of the
  known ones and the code is 404. It sees through wrapping.
\<close>

definition IsNotFound :: "error \<Rightarrow> bool" where
  "IsNotFound err =
     (case reasonAndCodeForError err of
        (reason, code) \<Rightarrow>
          if reason = StatusReasonNotFound then True
          else if reason \<notin> set knownReasons \<and> code = 404 then True
          else False)"

subsection \<open>Resource objects\<close>

text \<open>
  \<^verbatim>\<open>oappsv1.DeploymentConfig\<close>, with the fields of its embedded \<^verbatim>\<open>ObjectMeta\<close> that the
  source sets or reads. A Go map is a partial function; a nil map and an empty map both
  have the empty domain.
\<close>

record DeploymentConfig =
  Name :: string
  Namespace :: string
  Labels :: "string \<rightharpoonup> string"
  Annotations :: "string \<rightharpoonup> string"

text \<open>The zero value \<^verbatim>\<open>oappsv1.DeploymentConfig{}\<close>.\<close>

definition emptyDeploymentConfig :: DeploymentConfig where
  "emptyDeploymentConfig =
     \<lparr>DeploymentConfig.Name = [], Namespace = [], Labels = Map.empty, Annotations = Map.empty\<rparr>"

record DeploymentConfigList =
  Items :: "DeploymentConfig list"

text \<open>The zero value \<^verbatim>\<open>oappsv1.DeploymentConfigList{}\<close>.\<close>

definition emptyDeploymentConfigList :: DeploymentConfigList where
  "emptyDeploymentConfigList = \<lparr>Items = []\<rparr>"

record NamespacedName =
  Name :: string
  Namespace :: string

subsection \<open>Helpers of other packages\<close>

text \<open>
  Modelled from the spec: \<^verbatim>\<open>argoutil.GenerateResourceName\<close>, \<^verbatim>\<open>common.DefaultLabels\<close>
  and \<^verbatim>\<open>common.DefaultAnnotations\<close> are not among the sources. The spec says of them only
  that the default name is "a deterministic function of (instance name, component)" and
  that the defaults are "a fixed default set", so they are parameters: arbitrary pure
  functions of the arguments the source passes to them.
\<close>

record helpers =
  GenerateResourceName :: "string \<Rightarrow> string \<Rightarrow> string"
  DefaultLabels :: "string \<Rightarrow> string \<Rightarrow> string \<Rightarrow> (string \<rightharpoonup> string)"
  DefaultAnnotations :: "string \<Rightarrow> string \<Rightarrow> (string \<rightharpoonup> string)"

text \<open>
  Modelled from the spec: \<^verbatim>\<open>argoutil.MergeMaps\<close> is not among the sources. The spec says
  that labels and annotations "are merged with a fixed default set, caller-supplied values
  taking precedence on key collision". The source passes the defaults first and the
  caller's map second, so the result holds every key of either argument and the second
  argument decides the value of a key that both have.
\<close>

definition MergeMaps :: "(string \<rightharpoonup> string) \<Rightarrow> (string \<rightharpoonup> string) \<Rightarrow> (string \<rightharpoonup> string)" where
  "MergeMaps a b = (\<lambda>k. case b k of Some v \<Rightarrow> Some v | None \<Rightarrow> a k)"

subsection \<open>Requests and mutation callbacks\<close>

text \<open>
  Modelled from the spec: the type \<^verbatim>\<open>mutation.MutateFunc\<close> is not among the sources. The
  spec describes a function "taking (previous-object-or-absent,
  resource-object-being-built, client) and returning success or failure; it may mutate the
  resource object in place". The in-place mutation is the returned object; a callback is a
  closure and may act on the world outside (it is handed the client), so it also
  transforms a state \<open>'w\<close>. A callback here always returns; a nil function value, which
  the Go code would panic on, is not a value of this type.
\<close>

type_synonym ('p, 'c, 'w) MutateFunc =
  "'p option \<Rightarrow> DeploymentConfig \<Rightarrow> 'c \<Rightarrow> 'w \<Rightarrow> (DeploymentConfig \<times> error option) \<times> 'w"

record ('p, 'c, 'w) DeploymentConfigRequest =
  Name :: string
  InstanceName :: string
  InstanceNamespace :: string
  Component :: string
  Labels :: "string \<rightharpoonup> string"
  Annotations :: "string \<rightharpoonup> string"
  Mutations :: "('p, 'c, 'w) MutateFunc list"
  Client :: 'c

text \<open>One entry of the log of callback invocations: the three arguments of the call.\<close>

record ('p, 'c) invocation =
  previous :: "'p option"
  target :: DeploymentConfig
  handle :: 'c

subsection \<open>The client\<close>

text \<open>
  \<^verbatim>\<open>ctrlClient.Client\<close> is an interface of controller-runtime: a record of its five
  methods over the state \<open>'s\<close> of the cluster behind it. \<^verbatim>\<open>Get\<close> and \<^verbatim>\<open>List\<close> fill the
  object they are handed, which is returned beside the error. An object argument is a
  pointer and may be nil. \<open>'o\<close> is the type of a list option.
\<close>

record ('s, 'o) ctrlClient =
  Get :: "NamespacedName \<Rightarrow> DeploymentConfig \<Rightarrow> 's \<Rightarrow> (DeploymentConfig \<times> error option) \<times> 's"
  List :: "DeploymentConfigList \<Rightarrow> 'o list \<Rightarrow> 's \<Rightarrow> (DeploymentConfigList \<times> error option) \<times> 's"
  Create :: "DeploymentConfig option \<Rightarrow> 's \<Rightarrow> error option \<times> 's"
  Update :: "DeploymentConfig option \<Rightarrow> 's \<Rightarrow> error option \<times> 's"
  Delete :: "DeploymentConfig option \<Rightarrow> 's \<Rightarrow> error option \<times> 's"

datatype 'o call =
    GetCall NamespacedName DeploymentConfig
  | ListCall DeploymentConfigList "'o list"
  | CreateCall "DeploymentConfig option"
  | UpdateCall "DeploymentConfig option"
  | DeleteCall "DeploymentConfig option"

record ('s, 'o) world =
  cluster :: 's
  calls :: "'o call list"

text \<open>A method call: the method acts on the cluster, and the call is logged.\<close>

definition clientGet ::
  "('s, 'o) ctrlClient \<Rightarrow> NamespacedName \<Rightarrow> DeploymentConfig \<Rightarrow> ('s, 'o) world
     \<Rightarrow> (DeploymentConfig \<times> error option) \<times> ('s, 'o) world" where
  "clientGet client key obj w =
     (case Get client key obj (cluster w) of
        (r, s) \<Rightarrow> (r, \<lparr>cluster = s, calls = calls w @ [GetCall key obj]\<rparr>))"

definition clientList ::
  "('s, 'o) ctrlClient \<Rightarrow> DeploymentConfigList \<Rightarrow> 'o list \<Rightarrow> ('s, 'o) world
     \<Rightarrow> (DeploymentConfigList \<times> error option) \<times> ('s, 'o) world" where
  "clientList client lst opts w =
     (case List client lst opts (cluster w) of
        (r, s) \<Rightarrow> (r, \<lparr>cluster = s, calls = calls w @ [ListCall lst opts]\<rparr>))"

definition clientCreate ::
  "('s, 'o) ctrlClient \<Rightarrow> DeploymentConfig option \<Rightarrow> ('s, 'o) world
     \<Rightarrow> error option \<times> ('s, 'o) world" where
  "clientCreate client obj w =
     (case Create client obj (cluster w) of
        (r, s) \<Rightarrow> (r, \<lparr>cluster = s, calls = calls w @ [CreateCall obj]\<rparr>))"

definition clientUpdate ::
  "('s, 'o) ctrlClient \<Rightarrow> DeploymentConfig option \<Rightarrow> ('s, 'o) world
     \<Rightarrow> error option \<times> ('s, 'o) world" where
  "clientUpdate client obj w =
     (case Update client obj (cluster w) of
        (r, s) \<Rightarrow> (r, \<lparr>cluster = s, calls = calls w @ [UpdateCall obj]\<rparr>))"

definition clientDelete ::
  "('s, 'o) ctrlClient \<Rightarrow> DeploymentConfig option \<Rightarrow> ('s, 'o) world
     \<Rightarrow> error option \<times> ('s, 'o) world" where
  "clientDelete client obj w =
     (case Delete client obj (cluster w) of
        (r, s) \<Rightarrow> (r, \<lparr>cluster = s, calls = calls w @ [DeleteCall obj]\<rparr>))"

subsection \<open>The operations of the source file\<close>

definition newDeploymentConfig ::
  "helpers \<Rightarrow> string \<Rightarrow> string \<Rightarrow> string \<Rightarrow> string
     \<Rightarrow> (string \<rightharpoonup> string) \<Rightarrow> (string \<rightharpoonup> string) \<Rightarrow> DeploymentConfig" where
  "newDeploymentConfig h name instanceName instanceNamespace component labels annotations =
     (let deploymentConfigName =
            (if name \<noteq> [] then name else GenerateResourceName h instanceName component)
      in \<lparr>DeploymentConfig.Name = deploymentConfigName,
          Namespace = instanceNamespace,
          Labels = MergeMaps (DefaultLabels h deploymentConfigName instanceName component) labels,
          Annotations = MergeMaps (DefaultAnnotations h instanceName instanceNamespace) annotations\<rparr>)"

definition CreateDeploymentConfig ::
  "DeploymentConfig option \<Rightarrow> ('s, 'o) ctrlClient \<Rightarrow> ('s, 'o) world
     \<Rightarrow> error option \<times> ('s, 'o) world" where
  "CreateDeploymentConfig deploymentConfig client w = clientCreate client deploymentConfig w"

definition GetDeploymentConfig ::
  "string \<Rightarrow> string \<Rightarrow> ('s, 'o) ctrlClient \<Rightarrow> ('s, 'o) world
     \<Rightarrow> (DeploymentConfig option \<times> error option) \<times> ('s, 'o) world" where
  "GetDeploymentConfig name namespace client w =
     (case clientGet client \<lparr>NamespacedName.Name = name, Namespace = namespace\<rparr>
             emptyDeploymentConfig w of
        ((existingDeploymentConfig, err), w') \<Rightarrow>
          if err \<noteq> None then ((None, err), w')
          else ((Some existingDeploymentConfig, None), w'))"

text \<open>
  \<^verbatim>\<open>UpdateDeploymentConfig\<close> reads two fields of its argument before anything else, so the
  pointer it is given is an object here (on a nil pointer the Go code panics).
\<close>

definition UpdateDeploymentConfig ::
  "DeploymentConfig \<Rightarrow> ('s, 'o) ctrlClient \<Rightarrow> ('s, 'o) world
     \<Rightarrow> error option \<times> ('s, 'o) world" where
  "UpdateDeploymentConfig deploymentConfig client w =
     (case GetDeploymentConfig (DeploymentConfig.Name deploymentConfig)
             (DeploymentConfig.Namespace deploymentConfig) client w of
        ((_, err), w') \<Rightarrow>
          if err \<noteq> None then (err, w')
          else (case clientUpdate client (Some deploymentConfig) w' of
                  (err, w'') \<Rightarrow> if err \<noteq> None then (err, w'') else (None, w'')))"

definition DeleteDeploymentConfig ::
  "string \<Rightarrow> string \<Rightarrow> ('s, 'o) ctrlClient \<Rightarrow> ('s, 'o) world
     \<Rightarrow> error option \<times> ('s, 'o) world" where
  "DeleteDeploymentConfig name namespace client w =
     (case GetDeploymentConfig name namespace client w of
        ((existingDeploymentConfig, err), w') \<Rightarrow>
          (case err of
             Some e \<Rightarrow> if \<not> IsNotFound e then (Some e, w') else (None, w')
           | None \<Rightarrow>
               (case clientDelete client existingDeploymentConfig w' of
                  (err, w'') \<Rightarrow> if err \<noteq> None then (err, w'') else (None, w''))))"

text \<open>The parameter \<^verbatim>\<open>namespace\<close> is not used by the source.\<close>

definition ListDeploymentConfigs ::
  "string \<Rightarrow> ('s, 'o) ctrlClient \<Rightarrow> 'o list \<Rightarrow> ('s, 'o) world
     \<Rightarrow> (DeploymentConfigList option \<times> error option) \<times> ('s, 'o) world" where
  "ListDeploymentConfigs namespace client listOptions w =
     (case clientList client emptyDeploymentConfigList listOptions w of
        ((existingDeploymentConfigs, err), w') \<Rightarrow>
          if err \<noteq> None then ((None, err), w')
          else ((Some existingDeploymentConfigs, None), w'))"

text \<open>
  The \<^verbatim>\<open>for\<close> loop of \<^verbatim>\<open>RequestDeploymentConfig\<close> over the callbacks still to run. Its
  state is the object (mutated in place by the callbacks), the variable
  \<^verbatim>\<open>mutationErr\<close>, the world of the callbacks and the log of invocations.
\<close>

fun mutationLoop ::
  "('p, 'c, 'w) MutateFunc list \<Rightarrow> 'c \<Rightarrow> DeploymentConfig \<Rightarrow> error option \<Rightarrow> 'w
     \<Rightarrow> ('p, 'c) invocation list
     \<Rightarrow> DeploymentConfig \<times> error option \<times> 'w \<times> ('p, 'c) invocation list" where
  "mutationLoop [] client deploymentConfig mutationErr w log =
     (deploymentConfig, mutationErr, w, log)"
| "mutationLoop (mutation # rest) client deploymentConfig mutationErr w log =
     (case mutation None deploymentConfig client w of
        ((deploymentConfig', err), w') \<Rightarrow>
          mutationLoop rest client deploymentConfig'
            (if err \<noteq> None then err else mutationErr) w'
            (log @ [\<lparr>previous = None, target = deploymentConfig, handle = client\<rparr>]))"

definition mutationErrorPrefix :: string where
  "mutationErrorPrefix =
     ''RequestDeploymentConfig: one or more mutation functions could not be applied: ''"

definition RequestDeploymentConfig ::
  "helpers \<Rightarrow> ('p, 'c, 'w) DeploymentConfigRequest \<Rightarrow> 'w
     \<Rightarrow> (DeploymentConfig option \<times> error option) \<times> 'w \<times> ('p, 'c) invocation list" where
  "RequestDeploymentConfig h request w =
     (let deploymentConfig =
            newDeploymentConfig h (DeploymentConfigRequest.Name request) (InstanceName request)
              (InstanceNamespace request) (Component request)
              (DeploymentConfigRequest.Labels request)
              (DeploymentConfigRequest.Annotations request)
      in if length (Mutations request) > 0 then
           (case mutationLoop (Mutations request) (Client request) deploymentConfig None w [] of
              (deploymentConfig', mutationErr, w', log) \<Rightarrow>
                (case mutationErr of
                   Some e \<Rightarrow>
                     ((Some deploymentConfig',
                       Some (errorString (mutationErrorPrefix @ Error e))), w', log)
                 | None \<Rightarrow> ((Some deploymentConfig', None), w', log)))
         else ((Some deploymentConfig, None), w, []))"

subsection \<open>Running the callbacks one after another\<close>

text \<open>
  Following the spec, "multiple callbacks run sequentially": every callback of the list is
  run, in order, with an absent previous object, on the object and in the world that the
  callback before it left. The result is the list of what each callback returned. This is
  the reference that the loop of the source is compared with.
\<close>

fun sequentialOutcomes ::
  "('p, 'c, 'w) MutateFunc list \<Rightarrow> 'c \<Rightarrow> DeploymentConfig \<Rightarrow> 'w
     \<Rightarrow> ((DeploymentConfig \<times> error option) \<times> 'w) list" where
  "sequentialOutcomes [] client obj w = []"
| "sequentialOutcomes (m # ms) client obj w =
     (case m None obj client w of
        ((obj', err), w') \<Rightarrow> ((obj', err), w') # sequentialOutcomes ms client obj' w')"

text \<open>The errors of the callbacks that failed, in the order of the failures.\<close>

definition failures :: "((DeploymentConfig \<times> error option) \<times> 'w) list \<Rightarrow> error list" where
  "failures outs = List.map_filter (\<lambda>out. snd (fst out)) outs"

text \<open>The objects that the callbacks were run on, one per outcome, starting from \<open>obj\<close>.\<close>

definition targets ::
  "DeploymentConfig \<Rightarrow> ((DeploymentConfig \<times> error option) \<times> 'w) list \<Rightarrow> DeploymentConfig list" where
  "targets obj outs = butlast (obj # map (\<lambda>out. fst (fst out)) outs)"

text \<open>A callback that leaves the name of the object as it is, whatever it is called with.\<close>

definition keepsName :: "('p, 'c, 'w) MutateFunc \<Rightarrow> bool" where
  "keepsName m =
     (\<forall>p obj client w. DeploymentConfig.Name (fst (fst (m p obj client w))) = DeploymentConfig.Name obj)"

subsection \<open>Concrete clients, helpers and callbacks\<close>

text \<open>
  An in-memory client in the manner of controller-runtime's fake client, to run the
  operations on: the cluster is a list of objects under their keys, a missing object is a
  NotFound status error, and a list option is the name of a namespace to list.
\<close>

definition keyOf :: "DeploymentConfig \<Rightarrow> NamespacedName" where
  "keyOf obj = \<lparr>NamespacedName.Name = DeploymentConfig.Name obj,
               Namespace = DeploymentConfig.Namespace obj\<rparr>"

definition notFound :: error where
  "notFound = StatusError StatusReasonNotFound 404 ''deploymentconfigs not found''"

definition fakeClient :: "((NamespacedName \<times> DeploymentConfig) list, string) ctrlClient" where
  "fakeClient =
     \<lparr>Get = (\<lambda>key obj s. case map_of s key of
                            None \<Rightarrow> ((obj, Some notFound), s)
                          | Some found \<Rightarrow> ((found, None), s)),
      List = (\<lambda>lst opts s.
                ((\<lparr>Items = filter (\<lambda>obj. DeploymentConfig.Namespace obj \<in> set opts) (map snd s)\<rparr>,
                  None), s)),
      Create = (\<lambda>obj s. case obj of
                           None \<Rightarrow> (Some (errorString ''nil object''), s)
                         | Some d \<Rightarrow>
                             (case map_of s (keyOf d) of
                                Some found \<Rightarrow>
                                  (Some (StatusError StatusReasonAlreadyExists 409 ''already exists''), s)
                              | None \<Rightarrow> (None, (keyOf d, d) # s))),
      Update = (\<lambda>obj s. case obj of
                           None \<Rightarrow> (Some (errorString ''nil object''), s)
                         | Some d \<Rightarrow>
                             (case map_of s (keyOf d) of
                                None \<Rightarrow> (Some notFound, s)
                              | Some found \<Rightarrow> (None, (keyOf d, d) # s))),
      Delete = (\<lambda>obj s. case obj of
                           None \<Rightarrow> (Some (errorString ''nil object''), s)
                         | Some d \<Rightarrow>
                             (case map_of s (keyOf d) of
                                None \<Rightarrow> (Some notFound, s)
                              | Some found \<Rightarrow> (None, filter (\<lambda>entry. fst entry \<noteq> keyOf d) s)))\<rparr>"

text \<open>A client that cannot reach the cluster: every method fails with the same error.\<close>

definition unreachable :: error where
  "unreachable = errorString ''connection refused''"

definition brokenClient :: "((NamespacedName \<times> DeploymentConfig) list, string) ctrlClient" where
  "brokenClient =
     \<lparr>Get = (\<lambda>key obj s. ((obj, Some unreachable), s)),
      List = (\<lambda>lst opts s. ((lst, Some unreachable), s)),
      Create = (\<lambda>obj s. (Some unreachable, s)),
      Update = (\<lambda>obj s. (Some unreachable, s)),
      Delete = (\<lambda>obj s. (Some unreachable, s))\<rparr>"

text \<open>A client whose \<open>Get\<close> fails with the given error and whose other methods are broken.\<close>

definition getFails :: "error \<Rightarrow> ((NamespacedName \<times> DeploymentConfig) list, string) ctrlClient" where
  "getFails e = brokenClient\<lparr>Get := (\<lambda>key obj s. ((obj, Some e), s))\<rparr>"

definition server :: DeploymentConfig where
  "server = \<lparr>DeploymentConfig.Name = ''argocd-server'', Namespace = ''argocd'',
             Labels = Map.empty, Annotations = Map.empty\<rparr>"

definition oneServer :: "((NamespacedName \<times> DeploymentConfig) list, string) world" where
  "oneServer = \<lparr>cluster = [(keyOf server, server)], calls = []\<rparr>"

definition emptyCluster :: "((NamespacedName \<times> DeploymentConfig) list, string) world" where
  "emptyCluster = \<lparr>cluster = [], calls = []\<rparr>"

text \<open>
  Helpers to build concrete objects with: the default name joins the instance name and the
  component, and the default labels are the one label of the spec's scenario.
\<close>

definition exampleHelpers :: helpers where
  "exampleHelpers =
     \<lparr>GenerateResourceName = (\<lambda>instanceName component. instanceName @ ''-'' @ component),
      DefaultLabels = (\<lambda>name instanceName component. [''app'' \<mapsto> ''argocd'']),
      DefaultAnnotations = (\<lambda>instanceName instanceNamespace. Map.empty)\<rparr>"

text \<open>
  Two callbacks. Both write their argument into the namespace of the object and count
  themselves in the world (a number); the first reports success, the second fails with
  its argument as the message.
\<close>

definition setNamespace :: "string \<Rightarrow> (unit, unit, nat) MutateFunc" where
  "setNamespace ns = (\<lambda>prev obj client w. ((obj\<lparr>DeploymentConfig.Namespace := ns\<rparr>, None), Suc w))"

definition failWith :: "string \<Rightarrow> (unit, unit, nat) MutateFunc" where
  "failWith msg =
     (\<lambda>prev obj client w. ((obj\<lparr>DeploymentConfig.Namespace := msg\<rparr>, Some (errorString msg)), Suc w))"

definition exampleRequest :: "(unit, unit, nat) MutateFunc list \<Rightarrow> (unit, unit, nat) DeploymentConfigRequest" where
  "exampleRequest ms =
     \<lparr>DeploymentConfigRequest.Name = [], InstanceName = ''argocd'',
      InstanceNamespace = ''openshift-gitops'', Component = ''server'',
      Labels = [''tier'' \<mapsto> ''x''], Annotations = Map.empty,
      Mutations = ms, Client = ()\<rparr>"

section \<open>Properties\<close>

subsection \<open>Which errors are NotFound\<close>

lemma IsNotFound_StatusError [simp]:
  "IsNotFound (StatusError reason code msg) =
     (reason = StatusReasonNotFound \<or> reason \<notin> set knownReasons \<and> code = 404)"
  by (simp add: IsNotFound_def reasonAndCodeForError_def)

lemma IsNotFound_errorString [simp]: "\<not> IsNotFound (errorString msg)"
  by (simp add: IsNotFound_def reasonAndCodeForError_def)

lemma IsNotFound_wrapError [simp]: "IsNotFound (wrapError msg err) = IsNotFound err"
  by (simp add: IsNotFound_def reasonAndCodeForError_def)

subsection \<open>The loop over the callbacks\<close>

lemma length_sequentialOutcomes:
  "length (sequentialOutcomes ms client obj w) = length ms"
  by (induction ms arbitrary: obj w) (auto split: prod.splits)

lemma length_targets: "length (targets obj outs) = length outs"
  by (simp add: targets_def)

lemma mutationLoop_sequential:
  "mutationLoop ms client obj mutationErr w log =
     (last (obj # map (\<lambda>out. fst (fst out)) (sequentialOutcomes ms client obj w)),
      last (mutationErr # map Some (failures (sequentialOutcomes ms client obj w))),
      last (w # map snd (sequentialOutcomes ms client obj w)),
      log @ map (\<lambda>d. \<lparr>previous = None, target = d, handle = client\<rparr>)
             (targets obj (sequentialOutcomes ms client obj w)))"
proof (induction ms arbitrary: obj mutationErr w log)
  case Nil
  show ?case by (simp add: failures_def targets_def)
next
  case (Cons m ms)
  obtain obj' err w' where step: "m None obj client w = ((obj', err), w')"
    by (metis surj_pair)
  show ?case
  proof (cases err)
    case None
    with step show ?thesis
      by (simp add: Cons.IH failures_def targets_def)
  next
    case (Some e)
    with step show ?thesis
      by (simp add: Cons.IH failures_def targets_def)
  qed
qed

lemma mutationLoop_ignores_previous:
  "mutationLoop (map (\<lambda>m p. m None) ms) client obj mutationErr w log =
   mutationLoop ms client obj mutationErr w log"
  by (induction ms arbitrary: obj mutationErr w log) (auto split: prod.splits)

lemma mutationLoop_keeps_name:
  assumes "\<forall>m \<in> set ms. keepsName m"
    and "mutationLoop ms client obj mutationErr w log = (obj', mutationErr', w', log')"
  shows "DeploymentConfig.Name obj' = DeploymentConfig.Name obj"
  using assms
proof (induction ms arbitrary: obj mutationErr w log)
  case Nil
  then show ?case by simp
next
  case (Cons m ms)
  obtain obj1 err w1 where step: "m None obj client w = ((obj1, err), w1)"
    by (metis surj_pair)
  from Cons.prems(1) have "keepsName m" by simp
  then have "DeploymentConfig.Name (fst (fst (m None obj client w))) = DeploymentConfig.Name obj"
    unfolding keepsName_def by blast
  with step have name1: "DeploymentConfig.Name obj1 = DeploymentConfig.Name obj" by simp
  from Cons.prems(2) step
  have "mutationLoop ms client obj1 (if err \<noteq> None then err else mutationErr) w1
          (log @ [\<lparr>previous = None, target = obj, handle = client\<rparr>]) = (obj', mutationErr', w', log')"
    by simp
  with Cons.IH Cons.prems(1) have "DeploymentConfig.Name obj' = DeploymentConfig.Name obj1"
    by (metis list.set_intros(2))
  with name1 show ?case by simp
qed

lemma mutationLoop_first_target:
  "map target (take 1 (snd (snd (snd (mutationLoop ms client obj mutationErr w [])))))
     = take 1 (map (\<lambda>m. obj) ms)"
  by (cases ms) (auto simp: mutationLoop_sequential targets_def split: prod.splits)

lemma RequestDeploymentConfig_keeps_name:
  assumes "\<forall>m \<in> set (Mutations request). keepsName m"
  shows "map_option DeploymentConfig.Name (fst (fst (RequestDeploymentConfig h request w)))
           = Some (DeploymentConfig.Name
                (newDeploymentConfig h (DeploymentConfigRequest.Name request) (InstanceName request)
                   (InstanceNamespace request) (Component request)
                   (DeploymentConfigRequest.Labels request)
                   (DeploymentConfigRequest.Annotations request)))"
proof (cases "Mutations request = []")
  case True
  then show ?thesis by (simp add: RequestDeploymentConfig_def)
next
  case False
  let ?built = "newDeploymentConfig h (DeploymentConfigRequest.Name request) (InstanceName request)
                   (InstanceNamespace request) (Component request)
                   (DeploymentConfigRequest.Labels request)
                   (DeploymentConfigRequest.Annotations request)"
  obtain obj' mutationErr' w' log' where
    loop: "mutationLoop (Mutations request) (Client request) ?built None w [] = (obj', mutationErr', w', log')"
    by (metis prod_cases4)
  from mutationLoop_keeps_name [OF assms loop]
  have "DeploymentConfig.Name obj' = DeploymentConfig.Name ?built" .
  with False loop show ?thesis
    by (simp add: RequestDeploymentConfig_def Let_def split: option.splits)
qed

subsection \<open>Building an object from a request\<close>

text \<open>
  Claim C1. When at least one callback of the request fails (the list of failures of the
  sequential run is not empty), \<open>RequestDeploymentConfig\<close> has run every callback, in
  the order of the list and each on the object left by the one before it: the log has one
  invocation for each callback, on exactly the objects of the sequential run, and the
  world is the one the last callback left. It returns a non-nil object, the one left by
  the last callback (so the mutations of failed and of later callbacks are all in it),
  together with a non-nil error, whose message is the fixed prefix followed by the message
  of the last failure; the earlier failures do not appear in it.
\<close>

theorem RequestDeploymentConfig_last_failure:
  fixes request :: "('p, 'c, 'w) DeploymentConfigRequest"
  assumes built: "built = newDeploymentConfig h (DeploymentConfigRequest.Name request)
                     (InstanceName request) (InstanceNamespace request) (Component request)
                     (DeploymentConfigRequest.Labels request)
                     (DeploymentConfigRequest.Annotations request)"
    and outs: "outs = sequentialOutcomes (Mutations request) (Client request) built w"
    and failing: "failures outs \<noteq> []"
  shows "RequestDeploymentConfig h request w =
           ((Some (fst (fst (last outs))),
             Some (errorString (mutationErrorPrefix @ Error (last (failures outs))))),
            snd (last outs),
            map (\<lambda>obj. \<lparr>previous = None, target = obj, handle = Client request\<rparr>)
              (targets built outs))
         \<and> length outs = length (Mutations request)
         \<and> length (targets built outs) = length (Mutations request)"
proof -
  from failing have nonempty: "outs \<noteq> []"
    by (auto simp: failures_def)
  with outs have ms: "Mutations request \<noteq> []"
    by auto
  from nonempty have obj: "last (built # map (\<lambda>out. fst (fst out)) outs) = fst (fst (last outs))"
    by (simp add: last_map)
  from nonempty have world: "last (w # map snd outs) = snd (last outs)"
    by (simp add: last_map)
  from failing have err: "last (None # map Some (failures outs)) = Some (last (failures outs))"
    by (simp add: last_map)
  have "mutationLoop (Mutations request) (Client request) built None w [] =
          (fst (fst (last outs)), Some (last (failures outs)), snd (last outs),
           map (\<lambda>obj. \<lparr>previous = None, target = obj, handle = Client request\<rparr>)
             (targets built outs))"
    unfolding mutationLoop_sequential outs [symmetric] obj world err by simp
  with ms built have "RequestDeploymentConfig h request w =
           ((Some (fst (fst (last outs))),
             Some (errorString (mutationErrorPrefix @ Error (last (failures outs))))),
            snd (last outs),
            map (\<lambda>obj. \<lparr>previous = None, target = obj, handle = Client request\<rparr>)
              (targets built outs))"
    by (simp add: RequestDeploymentConfig_def Let_def)
  moreover have "length outs = length (Mutations request)"
    by (simp add: outs length_sequentialOutcomes)
  ultimately show ?thesis
    by (simp add: length_targets)
qed

theorem RequestDeploymentConfig_last_failure_witness:
  "failures (sequentialOutcomes [failWith ''first'', setNamespace ''second'', failWith ''third''] ()
       (newDeploymentConfig exampleHelpers [] ''argocd'' ''openshift-gitops'' ''server''
          [''tier'' \<mapsto> ''x''] Map.empty) 0) = [errorString ''first'', errorString ''third'']
   \<and> map_option DeploymentConfig.Namespace
       (fst (fst (RequestDeploymentConfig exampleHelpers
          (exampleRequest [failWith ''first'', setNamespace ''second'', failWith ''third'']) 0)))
       = Some ''third''
   \<and> snd (fst (RequestDeploymentConfig exampleHelpers
          (exampleRequest [failWith ''first'', setNamespace ''second'', failWith ''third'']) 0))
       = Some (errorString
           ''RequestDeploymentConfig: one or more mutation functions could not be applied: third'')
   \<and> fst (snd (RequestDeploymentConfig exampleHelpers
          (exampleRequest [failWith ''first'', setNamespace ''second'', failWith ''third'']) 0)) = 3
   \<and> map (\<lambda>inv. DeploymentConfig.Namespace (target inv))
        (snd (snd (RequestDeploymentConfig exampleHelpers
          (exampleRequest [failWith ''first'', setNamespace ''second'', failWith ''third'']) 0)))
       = [''openshift-gitops'', ''first'', ''second'']"
proof -
  let ?ms = "[failWith ''first'', setNamespace ''second'', failWith ''third'']"
  let ?built = "newDeploymentConfig exampleHelpers [] ''argocd'' ''openshift-gitops'' ''server''
          [''tier'' \<mapsto> ''x''] Map.empty"
  have fs: "failures (sequentialOutcomes ?ms () ?built 0) = [errorString ''first'', errorString ''third'']"
    by (simp add: failures_def failWith_def setNamespace_def)
  have built: "?built = newDeploymentConfig exampleHelpers
                     (DeploymentConfigRequest.Name (exampleRequest ?ms))
                     (InstanceName (exampleRequest ?ms)) (InstanceNamespace (exampleRequest ?ms))
                     (Component (exampleRequest ?ms))
                     (DeploymentConfigRequest.Labels (exampleRequest ?ms))
                     (DeploymentConfigRequest.Annotations (exampleRequest ?ms))"
    by (simp add: exampleRequest_def)
  have outs: "sequentialOutcomes ?ms () ?built 0 =
     sequentialOutcomes (Mutations (exampleRequest ?ms)) (Client (exampleRequest ?ms)) ?built 0"
    by (simp add: exampleRequest_def)
  have failing: "failures (sequentialOutcomes ?ms () ?built 0) \<noteq> []"
    using fs by simp
  note inst = RequestDeploymentConfig_last_failure [OF built outs failing]
  from inst have req: "RequestDeploymentConfig exampleHelpers (exampleRequest ?ms) 0 =
           ((Some (fst (fst (last (sequentialOutcomes ?ms () ?built 0)))),
             Some (errorString (mutationErrorPrefix @ Error (last (failures (sequentialOutcomes ?ms () ?built 0)))))),
            snd (last (sequentialOutcomes ?ms () ?built 0)),
            map (\<lambda>obj. \<lparr>previous = None, target = obj, handle = Client (exampleRequest ?ms)\<rparr>)
              (targets ?built (sequentialOutcomes ?ms () ?built 0)))"
    by (rule conjunct1)
  show ?thesis
    unfolding req fs
    by (simp add: failWith_def setNamespace_def targets_def newDeploymentConfig_def
          mutationErrorPrefix_def exampleRequest_def Let_def)
qed

lemma mutationLoop_log_previous:
  assumes "mutationLoop ms client obj mutationErr w log = (obj', mutationErr', w', log')"
  shows "map previous log' = map previous log @ replicate (length ms) None"
proof -
  from assms have "log' = log @ map (\<lambda>d. \<lparr>previous = None, target = d, handle = client\<rparr>)
                               (targets obj (sequentialOutcomes ms client obj w))"
    by (simp add: mutationLoop_sequential)
  then show ?thesis
    by (simp add: comp_def length_targets length_sequentialOutcomes map_replicate_const)
qed

text \<open>
  Claim C9. Every callback that \<open>RequestDeploymentConfig\<close> invokes receives nil as its
  first argument: the log holds one invocation for each callback of the request, and the
  previous object of every one of them is absent. Equally, the result never depends on
  what a callback would do with a previous object: replacing every callback by the one
  that ignores its first argument and acts as on nil changes nothing.
\<close>

theorem RequestDeploymentConfig_previous_absent:
  fixes request :: "('p, 'c, 'w) DeploymentConfigRequest"
  shows "map previous (snd (snd (RequestDeploymentConfig h request w)))
           = replicate (length (Mutations request)) None
         \<and> RequestDeploymentConfig h
             (request\<lparr>Mutations := map (\<lambda>m p. m None) (Mutations request)\<rparr>) w
           = RequestDeploymentConfig h request w"
proof -
  let ?built = "newDeploymentConfig h (DeploymentConfigRequest.Name request) (InstanceName request)
                  (InstanceNamespace request) (Component request)
                  (DeploymentConfigRequest.Labels request)
                  (DeploymentConfigRequest.Annotations request)"
  have "map previous (snd (snd (RequestDeploymentConfig h request w)))
           = replicate (length (Mutations request)) None"
  proof (cases "Mutations request = []")
    case True
    then show ?thesis by (simp add: RequestDeploymentConfig_def)
  next
    case False
    obtain obj' mutationErr' w' log' where
      loop: "mutationLoop (Mutations request) (Client request) ?built None w [] =
               (obj', mutationErr', w', log')"
      by (metis prod_cases4)
    from loop have "map previous log' = replicate (length (Mutations request)) None"
      by (simp add: mutationLoop_log_previous)
    with False loop show ?thesis
      by (simp add: RequestDeploymentConfig_def Let_def split: option.splits)
  qed
  moreover have "RequestDeploymentConfig h
             (request\<lparr>Mutations := map (\<lambda>m p. m None) (Mutations request)\<rparr>) w
           = RequestDeploymentConfig h request w"
    by (simp add: RequestDeploymentConfig_def Let_def mutationLoop_ignores_previous)
  ultimately show ?thesis by simp
qed

theorem RequestDeploymentConfig_previous_absent_witness:
  "map previous (snd (snd (RequestDeploymentConfig exampleHelpers
       (exampleRequest [failWith ''first'', setNamespace ''second'']) 0))) = [None, None]
   \<and> RequestDeploymentConfig exampleHelpers
       (exampleRequest [\<lambda>p. failWith ''first'' None, \<lambda>p. setNamespace ''second'' None]) 0
     = RequestDeploymentConfig exampleHelpers
         (exampleRequest [failWith ''first'', setNamespace ''second'']) 0"
proof -
  have ms: "Mutations (exampleRequest [failWith ''first'', setNamespace ''second''])
          = [failWith ''first'', setNamespace ''second'']"
    by (simp add: exampleRequest_def)
  have upd: "(exampleRequest [failWith ''first'', setNamespace ''second''])
               \<lparr>Mutations := map (\<lambda>m p. m None) [failWith ''first'', setNamespace ''second'']\<rparr>
             = exampleRequest [\<lambda>p. failWith ''first'' None, \<lambda>p. setNamespace ''second'' None]"
    by (simp add: exampleRequest_def)
  from RequestDeploymentConfig_previous_absent
         [of exampleHelpers "exampleRequest [failWith ''first'', setNamespace ''second'']" 0]
  show ?thesis
    unfolding ms upd by (simp add: numeral_2_eq_2)
qed

text \<open>
  Claim C10. A request without mutation callbacks always succeeds: the result is the
  freshly built default object, non-nil, with a nil error; the world is untouched and
  nothing was invoked.
\<close>

theorem RequestDeploymentConfig_no_mutations:
  fixes request :: "('p, 'c, 'w) DeploymentConfigRequest"
  assumes "Mutations request = []"
  shows "RequestDeploymentConfig h request w =
           ((Some (newDeploymentConfig h (DeploymentConfigRequest.Name request)
                     (InstanceName request) (InstanceNamespace request) (Component request)
                     (DeploymentConfigRequest.Labels request)
                     (DeploymentConfigRequest.Annotations request)),
             None), w, [])"
  using assms by (simp add: RequestDeploymentConfig_def)

theorem RequestDeploymentConfig_no_mutations_witness:
  "Mutations (exampleRequest []) = []
   \<and> RequestDeploymentConfig exampleHelpers (exampleRequest []) 7 =
       ((Some (newDeploymentConfig exampleHelpers [] ''argocd'' ''openshift-gitops'' ''server''
                 [''tier'' \<mapsto> ''x''] Map.empty), None), 7, [])"
proof -
  have none: "Mutations (exampleRequest []) = []"
    by (simp add: exampleRequest_def)
  from RequestDeploymentConfig_no_mutations [OF none, of exampleHelpers 7] none
  show ?thesis
    by (simp add: exampleRequest_def)
qed

lemma RequestDeploymentConfig_first_target:
  "map target (take 1 (snd (snd (RequestDeploymentConfig h request w))))
     = take 1 (map (\<lambda>m. newDeploymentConfig h (DeploymentConfigRequest.Name request)
                            (InstanceName request) (InstanceNamespace request) (Component request)
                            (DeploymentConfigRequest.Labels request)
                            (DeploymentConfigRequest.Annotations request)) (Mutations request))"
proof (cases "Mutations request = []")
  case True
  then show ?thesis by (simp add: RequestDeploymentConfig_def)
next
  case False
  let ?built = "newDeploymentConfig h (DeploymentConfigRequest.Name request) (InstanceName request)
                  (InstanceNamespace request) (Component request)
                  (DeploymentConfigRequest.Labels request)
                  (DeploymentConfigRequest.Annotations request)"
  obtain obj' mutationErr' w' log' where
    loop: "mutationLoop (Mutations request) (Client request) ?built None w [] =
             (obj', mutationErr', w', log')"
    by (metis prod_cases4)
  from mutationLoop_first_target [of "Mutations request" "Client request" ?built None w] loop
  have "map target (take 1 log') = take 1 (map (\<lambda>m. ?built) (Mutations request))"
    by simp
  with False loop show ?thesis
    by (simp add: RequestDeploymentConfig_def Let_def split: option.splits)
qed

text \<open>
  Claim C4. For every request with a non-empty \<open>Name\<close>, the object that is built from the
  request (the call of \<open>newDeploymentConfig\<close> in \<open>RequestDeploymentConfig\<close>) has exactly
  that name. This is the object that the first callback, if there is one, is invoked on,
  and the object that \<open>RequestDeploymentConfig\<close> returns carries the name whenever no
  callback of the request changes names (in particular when there is no callback).
\<close>

theorem explicit_name_verbatim:
  fixes request :: "('p, 'c, 'w) DeploymentConfigRequest"
  assumes "DeploymentConfigRequest.Name request \<noteq> []"
  shows "DeploymentConfig.Name
           (newDeploymentConfig h (DeploymentConfigRequest.Name request) (InstanceName request)
              (InstanceNamespace request) (Component request)
              (DeploymentConfigRequest.Labels request)
              (DeploymentConfigRequest.Annotations request))
           = DeploymentConfigRequest.Name request
         \<and> map (\<lambda>inv. DeploymentConfig.Name (target inv))
               (take 1 (snd (snd (RequestDeploymentConfig h request w))))
             = take 1 (map (\<lambda>m. DeploymentConfigRequest.Name request) (Mutations request))
         \<and> ((\<forall>m \<in> set (Mutations request). keepsName m) \<longrightarrow>
              map_option DeploymentConfig.Name (fst (fst (RequestDeploymentConfig h request w)))
                = Some (DeploymentConfigRequest.Name request))"
proof -
  let ?built = "newDeploymentConfig h (DeploymentConfigRequest.Name request) (InstanceName request)
                  (InstanceNamespace request) (Component request)
                  (DeploymentConfigRequest.Labels request)
                  (DeploymentConfigRequest.Annotations request)"
  from assms have built: "DeploymentConfig.Name ?built = DeploymentConfigRequest.Name request"
    by (simp add: newDeploymentConfig_def Let_def)
  have first: "map (\<lambda>inv. DeploymentConfig.Name (target inv))
               (take 1 (snd (snd (RequestDeploymentConfig h request w))))
             = take 1 (map (\<lambda>m. DeploymentConfigRequest.Name request) (Mutations request))"
  proof -
    have "map (\<lambda>inv. DeploymentConfig.Name (target inv))
               (take 1 (snd (snd (RequestDeploymentConfig h request w))))
          = map DeploymentConfig.Name
              (map target (take 1 (snd (snd (RequestDeploymentConfig h request w)))))"
      by (simp add: comp_def)
    also have "\<dots> = map DeploymentConfig.Name (take 1 (map (\<lambda>m. ?built) (Mutations request)))"
      by (simp only: RequestDeploymentConfig_first_target)
    also have "\<dots> = take 1 (map (\<lambda>m. DeploymentConfigRequest.Name request) (Mutations request))"
      by (simp add: take_map comp_def built)
    finally show ?thesis .
  qed
  have "(\<forall>m \<in> set (Mutations request). keepsName m) \<longrightarrow>
              map_option DeploymentConfig.Name (fst (fst (RequestDeploymentConfig h request w)))
                = Some (DeploymentConfigRequest.Name request)"
    using RequestDeploymentConfig_keeps_name [of request h w] built by simp
  with built first show ?thesis by simp
qed

theorem explicit_name_verbatim_witness:
  "DeploymentConfigRequest.Name ((exampleRequest [setNamespace ''prod'', failWith ''broken''])
       \<lparr>DeploymentConfigRequest.Name := ''my-dc''\<rparr>) \<noteq> []
   \<and> keepsName (setNamespace ''prod'') \<and> keepsName (failWith ''broken'')
   \<and> DeploymentConfig.Name (newDeploymentConfig exampleHelpers ''my-dc'' ''argocd''
         ''openshift-gitops'' ''server'' [''tier'' \<mapsto> ''x''] Map.empty) = ''my-dc''
   \<and> map_option DeploymentConfig.Name (fst (fst (RequestDeploymentConfig exampleHelpers
         ((exampleRequest [setNamespace ''prod'', failWith ''broken''])
            \<lparr>DeploymentConfigRequest.Name := ''my-dc''\<rparr>) 0))) = Some ''my-dc''"
proof -
  let ?request = "(exampleRequest [setNamespace ''prod'', failWith ''broken''])
                    \<lparr>DeploymentConfigRequest.Name := ''my-dc''\<rparr>"
  have name: "DeploymentConfigRequest.Name ?request \<noteq> []"
    by (simp add: exampleRequest_def)
  have keep: "\<forall>m \<in> set [setNamespace ''prod'', failWith ''broken'']. keepsName m"
    by (simp add: keepsName_def setNamespace_def failWith_def)
  have fields: "DeploymentConfigRequest.Name ?request = ''my-dc''"
    "InstanceName ?request = ''argocd''" "InstanceNamespace ?request = ''openshift-gitops''"
    "Component ?request = ''server''" "DeploymentConfigRequest.Labels ?request = [''tier'' \<mapsto> ''x'']"
    "DeploymentConfigRequest.Annotations ?request = Map.empty"
    "Mutations ?request = [setNamespace ''prod'', failWith ''broken'']"
    by (simp_all add: exampleRequest_def)
  from explicit_name_verbatim [OF name, of exampleHelpers 0] keep name
  show ?thesis
    unfolding fields by simp
qed

lemma MergeMaps_apply:
  "MergeMaps a b k = (case b k of Some v \<Rightarrow> Some v | None \<Rightarrow> a k)"
  by (simp add: MergeMaps_def)

lemma dom_MergeMaps: "dom (MergeMaps a b) = dom a \<union> dom b"
  by (auto simp: MergeMaps_def dom_def split: option.splits)

text \<open>
  Claim C5. For every request with an empty \<open>Name\<close>, the name of the built object is
  \<open>GenerateResourceName\<close> of the instance name and the component, and of nothing else: two
  requests without a name that agree on the instance name and on the component are built
  with the same name, whatever their namespaces, labels, annotations and callbacks. The
  returned object carries that name whenever no callback of the request changes names.
  For the request with instance name "argocd" and component "server" the name is the
  combination of "argocd" and "server".
\<close>

theorem generated_name_deterministic:
  fixes request request' :: "('p, 'c, 'w) DeploymentConfigRequest"
  assumes "DeploymentConfigRequest.Name request = []"
  shows "DeploymentConfig.Name
           (newDeploymentConfig h (DeploymentConfigRequest.Name request) (InstanceName request)
              (InstanceNamespace request) (Component request)
              (DeploymentConfigRequest.Labels request)
              (DeploymentConfigRequest.Annotations request))
           = GenerateResourceName h (InstanceName request) (Component request)
         \<and> (DeploymentConfigRequest.Name request' = []
              \<and> InstanceName request' = InstanceName request
              \<and> Component request' = Component request \<longrightarrow>
            DeploymentConfig.Name
              (newDeploymentConfig h (DeploymentConfigRequest.Name request') (InstanceName request')
                 (InstanceNamespace request') (Component request')
                 (DeploymentConfigRequest.Labels request')
                 (DeploymentConfigRequest.Annotations request'))
            = DeploymentConfig.Name
                (newDeploymentConfig h (DeploymentConfigRequest.Name request) (InstanceName request)
                   (InstanceNamespace request) (Component request)
                   (DeploymentConfigRequest.Labels request)
                   (DeploymentConfigRequest.Annotations request)))
         \<and> ((\<forall>m \<in> set (Mutations request). keepsName m) \<longrightarrow>
              map_option DeploymentConfig.Name (fst (fst (RequestDeploymentConfig h request w)))
                = Some (GenerateResourceName h (InstanceName request) (Component request)))"
proof -
  have built: "DeploymentConfig.Name
           (newDeploymentConfig h [] instanceName instanceNamespace component labels annotations)
           = GenerateResourceName h instanceName component"
    for instanceName instanceNamespace component labels annotations
    by (simp add: newDeploymentConfig_def Let_def)
  have "(\<forall>m \<in> set (Mutations request). keepsName m) \<longrightarrow>
              map_option DeploymentConfig.Name (fst (fst (RequestDeploymentConfig h request w)))
                = Some (GenerateResourceName h (InstanceName request) (Component request))"
    using RequestDeploymentConfig_keeps_name [of request h w] assms built by simp
  with assms built show ?thesis by simp
qed

theorem generated_name_deterministic_witness:
  "DeploymentConfigRequest.Name (exampleRequest [setNamespace ''prod'']) = []
   \<and> InstanceName (exampleRequest [setNamespace ''prod'']) = ''argocd''
   \<and> Component (exampleRequest [setNamespace ''prod'']) = ''server''
   \<and> keepsName (setNamespace ''prod'')
   \<and> DeploymentConfig.Name (newDeploymentConfig exampleHelpers [] ''argocd'' ''openshift-gitops''
         ''server'' [''tier'' \<mapsto> ''x''] Map.empty)
       = GenerateResourceName exampleHelpers ''argocd'' ''server''
   \<and> map_option DeploymentConfig.Name (fst (fst (RequestDeploymentConfig exampleHelpers
         (exampleRequest [setNamespace ''prod'']) 0)))
       = Some (GenerateResourceName exampleHelpers ''argocd'' ''server'')
   \<and> GenerateResourceName exampleHelpers ''argocd'' ''server'' = ''argocd-server''"
proof -
  let ?request = "exampleRequest [setNamespace ''prod'']"
  have name: "DeploymentConfigRequest.Name ?request = []"
    by (simp add: exampleRequest_def)
  have keep: "\<forall>m \<in> set (Mutations ?request). keepsName m"
    by (simp add: exampleRequest_def keepsName_def setNamespace_def)
  have fields: "InstanceName ?request = ''argocd''"
    "InstanceNamespace ?request = ''openshift-gitops''"
    "Component ?request = ''server''" "DeploymentConfigRequest.Labels ?request = [''tier'' \<mapsto> ''x'']"
    "DeploymentConfigRequest.Annotations ?request = Map.empty"
    by (simp_all add: exampleRequest_def)
  have gen: "GenerateResourceName exampleHelpers ''argocd'' ''server'' = ''argocd-server''"
    by (simp add: exampleHelpers_def)
  from generated_name_deterministic [OF name, of exampleHelpers ?request 0] keep
  have "DeploymentConfig.Name (newDeploymentConfig exampleHelpers [] ''argocd'' ''openshift-gitops''
         ''server'' [''tier'' \<mapsto> ''x''] Map.empty)
       = GenerateResourceName exampleHelpers ''argocd'' ''server''
     \<and> map_option DeploymentConfig.Name (fst (fst (RequestDeploymentConfig exampleHelpers ?request 0)))
       = Some (GenerateResourceName exampleHelpers ''argocd'' ''server'')"
    unfolding name fields by simp
  moreover have "keepsName (setNamespace ''prod'')"
    by (simp add: keepsName_def setNamespace_def)
  ultimately show ?thesis
    using name fields gen by simp
qed

text \<open>
  Claim C6. The labels of the built object are the merge of the default labels with the
  labels of the caller, and its annotations the merge of the default annotations with the
  annotations of the caller. A key of the caller's map has the caller's value, also when
  the defaults have the key; every other key has its default value; and the keys of the
  result are the keys of the defaults together with the keys of the caller.
\<close>

theorem labels_and_annotations_merged:
  assumes "built = newDeploymentConfig h name instanceName instanceNamespace component
                     labels annotations"
    and "defaultLabels = DefaultLabels h (DeploymentConfig.Name built) instanceName component"
    and "defaultAnnotations = DefaultAnnotations h instanceName instanceNamespace"
  shows "DeploymentConfig.Labels built = MergeMaps defaultLabels labels
         \<and> DeploymentConfig.Annotations built = MergeMaps defaultAnnotations annotations
         \<and> (\<forall>k v. labels k = Some v \<longrightarrow> DeploymentConfig.Labels built k = Some v)
         \<and> (\<forall>k. labels k = None \<longrightarrow> DeploymentConfig.Labels built k = defaultLabels k)
         \<and> dom (DeploymentConfig.Labels built) = dom defaultLabels \<union> dom labels
         \<and> (\<forall>k v. annotations k = Some v \<longrightarrow> DeploymentConfig.Annotations built k = Some v)
         \<and> (\<forall>k. annotations k = None \<longrightarrow>
               DeploymentConfig.Annotations built k = defaultAnnotations k)
         \<and> dom (DeploymentConfig.Annotations built) = dom defaultAnnotations \<union> dom annotations"
proof -
  have ls: "DeploymentConfig.Labels built = MergeMaps defaultLabels labels"
    using assms by (simp add: newDeploymentConfig_def Let_def)
  have as: "DeploymentConfig.Annotations built = MergeMaps defaultAnnotations annotations"
    using assms by (simp add: newDeploymentConfig_def Let_def)
  show ?thesis
    unfolding ls as by (simp add: MergeMaps_apply dom_MergeMaps)
qed

theorem labels_and_annotations_merged_witness:
  "DeploymentConfig.Labels
     (newDeploymentConfig exampleHelpers [] ''argocd'' ''openshift-gitops'' ''server''
        [''tier'' \<mapsto> ''x'', ''app'' \<mapsto> ''mine''] [''owner'' \<mapsto> ''me'']) ''tier'' = Some ''x''
   \<and> DeploymentConfig.Labels
     (newDeploymentConfig exampleHelpers [] ''argocd'' ''openshift-gitops'' ''server''
        [''tier'' \<mapsto> ''x'', ''app'' \<mapsto> ''mine''] [''owner'' \<mapsto> ''me'']) ''app'' = Some ''mine''
   \<and> DeploymentConfig.Annotations
     (newDeploymentConfig exampleHelpers [] ''argocd'' ''openshift-gitops'' ''server''
        [''tier'' \<mapsto> ''x'', ''app'' \<mapsto> ''mine''] [''owner'' \<mapsto> ''me'']) ''owner'' = Some ''me''
   \<and> dom (DeploymentConfig.Labels
     (newDeploymentConfig exampleHelpers [] ''argocd'' ''openshift-gitops'' ''server''
        [''tier'' \<mapsto> ''x''] Map.empty)) = {''app'', ''tier''}
   \<and> DeploymentConfig.Labels
     (newDeploymentConfig exampleHelpers [] ''argocd'' ''openshift-gitops'' ''server''
        [''tier'' \<mapsto> ''x''] Map.empty) ''app'' = Some ''argocd''"
proof -
  let ?override = "newDeploymentConfig exampleHelpers [] ''argocd'' ''openshift-gitops'' ''server''
        [''tier'' \<mapsto> ''x'', ''app'' \<mapsto> ''mine''] [''owner'' \<mapsto> ''me'']"
  let ?scenario = "newDeploymentConfig exampleHelpers [] ''argocd'' ''openshift-gitops'' ''server''
        [''tier'' \<mapsto> ''x''] Map.empty"
  have defaults: "DefaultLabels exampleHelpers n i c = [''app'' \<mapsto> ''argocd'']" for n i c
    by (simp add: exampleHelpers_def)
  from labels_and_annotations_merged [OF refl refl refl, of exampleHelpers "[]" "''argocd''"
         "''openshift-gitops''" "''server''" "[''tier'' \<mapsto> ''x'', ''app'' \<mapsto> ''mine'']"
         "[''owner'' \<mapsto> ''me'']"]
  have override: "DeploymentConfig.Labels ?override ''tier'' = Some ''x''
      \<and> DeploymentConfig.Labels ?override ''app'' = Some ''mine''
      \<and> DeploymentConfig.Annotations ?override ''owner'' = Some ''me''"
    by (simp add: MergeMaps_apply)
  from labels_and_annotations_merged [OF refl refl refl, of exampleHelpers "[]" "''argocd''"
         "''openshift-gitops''" "''server''" "[''tier'' \<mapsto> ''x'']" Map.empty]
  have scenario: "dom (DeploymentConfig.Labels ?scenario) = {''app'', ''tier''}
      \<and> DeploymentConfig.Labels ?scenario ''app'' = Some ''argocd''"
    unfolding defaults by (auto simp: MergeMaps_apply dom_MergeMaps)
  from override scenario show ?thesis by simp
qed

subsection \<open>Reading, listing, updating and deleting\<close>

text \<open>
  Claim C7. \<open>GetDeploymentConfig\<close> makes one \<open>Get\<close> call on the client, for the key of the
  name and namespace and an empty object. Whatever error the client returns is returned
  as it is, beside a nil object; so the result is a NotFound error exactly when the client
  reports the resource as not found, and any other failure of the client comes back
  unchanged. When the client succeeds, the result is the object that the client filled,
  with a nil error.
\<close>

theorem GetDeploymentConfig_errors:
  fixes client :: "('s, 'o) ctrlClient"
  assumes "key = \<lparr>NamespacedName.Name = name, Namespace = namespace\<rparr>"
    and "Get client key emptyDeploymentConfig (cluster w) = ((obj, err), s)"
  shows "(\<forall>e. err = Some e \<longrightarrow>
            fst (GetDeploymentConfig name namespace client w) = (None, Some e))
         \<and> (err = None \<longrightarrow>
            fst (GetDeploymentConfig name namespace client w) = (Some obj, None))
         \<and> ((\<exists>e. snd (fst (GetDeploymentConfig name namespace client w)) = Some e \<and> IsNotFound e)
              \<longleftrightarrow> (\<exists>e. err = Some e \<and> IsNotFound e))
         \<and> snd (GetDeploymentConfig name namespace client w)
             = \<lparr>cluster = s, calls = calls w @ [GetCall key emptyDeploymentConfig]\<rparr>"
  using assms by (auto simp: GetDeploymentConfig_def clientGet_def)

theorem GetDeploymentConfig_errors_witness:
  "fst (GetDeploymentConfig ''argocd-server'' ''argocd'' fakeClient emptyCluster)
     = (None, Some notFound)
   \<and> IsNotFound notFound
   \<and> fst (GetDeploymentConfig ''argocd-server'' ''argocd'' brokenClient oneServer)
     = (None, Some unreachable)
   \<and> \<not> IsNotFound unreachable
   \<and> fst (GetDeploymentConfig ''argocd-server'' ''argocd'' fakeClient oneServer)
     = (Some server, None)"
proof -
  let ?key = "\<lparr>NamespacedName.Name = ''argocd-server'', Namespace = ''argocd''\<rparr>"
  have absent: "Get fakeClient ?key emptyDeploymentConfig (cluster emptyCluster)
                  = ((emptyDeploymentConfig, Some notFound), [])"
    by (simp add: fakeClient_def emptyCluster_def)
  have broken: "Get brokenClient ?key emptyDeploymentConfig (cluster oneServer)
                  = ((emptyDeploymentConfig, Some unreachable), [(keyOf server, server)])"
    by (simp add: brokenClient_def oneServer_def)
  have present: "Get fakeClient ?key emptyDeploymentConfig (cluster oneServer)
                  = ((server, None), [(keyOf server, server)])"
    by (simp add: fakeClient_def oneServer_def keyOf_def server_def)
  from GetDeploymentConfig_errors [OF refl absent]
  have 1: "fst (GetDeploymentConfig ''argocd-server'' ''argocd'' fakeClient emptyCluster)
             = (None, Some notFound)"
    by simp
  from GetDeploymentConfig_errors [OF refl broken]
  have 2: "fst (GetDeploymentConfig ''argocd-server'' ''argocd'' brokenClient oneServer)
             = (None, Some unreachable)"
    by simp
  from GetDeploymentConfig_errors [OF refl present]
  have 3: "fst (GetDeploymentConfig ''argocd-server'' ''argocd'' fakeClient oneServer)
             = (Some server, None)"
    by simp
  from 1 2 3 show ?thesis
    by (simp add: notFound_def unreachable_def)
qed

text \<open>
  Claim C8. \<open>ListDeploymentConfigs\<close> makes a single \<open>List\<close> call on the client, with an
  empty list object and the caller's options as they are. When the client succeeds the
  result is exactly the list that the client filled, with a nil error (nothing is
  filtered or paged locally); when the client fails the result is a nil list with the
  client's error.
\<close>

theorem ListDeploymentConfigs_forwards:
  fixes client :: "('s, 'o) ctrlClient"
  assumes "List client emptyDeploymentConfigList listOptions (cluster w) = ((lst, err), s)"
  shows "calls (snd (ListDeploymentConfigs namespace client listOptions w))
           = calls w @ [ListCall emptyDeploymentConfigList listOptions]
         \<and> cluster (snd (ListDeploymentConfigs namespace client listOptions w)) = s
         \<and> (err = None \<longrightarrow>
              fst (ListDeploymentConfigs namespace client listOptions w) = (Some lst, None))
         \<and> (\<forall>e. err = Some e \<longrightarrow>
              fst (ListDeploymentConfigs namespace client listOptions w) = (None, Some e))"
  using assms by (auto simp: ListDeploymentConfigs_def clientList_def)

theorem ListDeploymentConfigs_forwards_witness:
  "ListDeploymentConfigs ''ignored'' fakeClient [''argocd''] oneServer
     = ((Some \<lparr>Items = [server]\<rparr>, None),
        \<lparr>cluster = [(keyOf server, server)],
         calls = [ListCall emptyDeploymentConfigList [''argocd'']]\<rparr>)
   \<and> fst (ListDeploymentConfigs ''ignored'' fakeClient [''other''] oneServer)
     = (Some \<lparr>Items = []\<rparr>, None)
   \<and> ListDeploymentConfigs ''ignored'' brokenClient [''argocd''] oneServer
     = ((None, Some unreachable),
        \<lparr>cluster = [(keyOf server, server)],
         calls = [ListCall emptyDeploymentConfigList [''argocd'']]\<rparr>)"
proof -
  have listed: "List fakeClient emptyDeploymentConfigList [''argocd''] (cluster oneServer)
                  = ((\<lparr>Items = [server]\<rparr>, None), [(keyOf server, server)])"
    by (simp add: fakeClient_def oneServer_def server_def)
  have other: "List fakeClient emptyDeploymentConfigList [''other''] (cluster oneServer)
                  = ((\<lparr>Items = []\<rparr>, None), [(keyOf server, server)])"
    by (simp add: fakeClient_def oneServer_def server_def)
  have broken: "List brokenClient emptyDeploymentConfigList [''argocd''] (cluster oneServer)
                  = ((emptyDeploymentConfigList, Some unreachable), [(keyOf server, server)])"
    by (simp add: brokenClient_def oneServer_def)
  have calls: "calls oneServer = []"
    by (simp add: oneServer_def)
  from ListDeploymentConfigs_forwards [OF listed, of "''ignored''"]
  have 1: "ListDeploymentConfigs ''ignored'' fakeClient [''argocd''] oneServer
     = ((Some \<lparr>Items = [server]\<rparr>, None),
        \<lparr>cluster = [(keyOf server, server)],
         calls = [ListCall emptyDeploymentConfigList [''argocd'']]\<rparr>)"
    unfolding calls by (simp add: prod_eq_iff world.equality)
  from ListDeploymentConfigs_forwards [OF other, of "''ignored''"]
  have 2: "fst (ListDeploymentConfigs ''ignored'' fakeClient [''other''] oneServer)
     = (Some \<lparr>Items = []\<rparr>, None)"
    by simp
  from ListDeploymentConfigs_forwards [OF broken, of "''ignored''"]
  have 3: "ListDeploymentConfigs ''ignored'' brokenClient [''argocd''] oneServer
     = ((None, Some unreachable),
        \<lparr>cluster = [(keyOf server, server)],
         calls = [ListCall emptyDeploymentConfigList [''argocd'']]\<rparr>)"
    unfolding calls by (simp add: prod_eq_iff world.equality)
  from 1 2 3 show ?thesis by simp
qed

text \<open>
  Claim C2. When the object's name and namespace are absent on the cluster, that is, the
  preliminary \<open>Get\<close> fails with a NotFound error, \<open>UpdateDeploymentConfig\<close> returns that very
  error and the client's \<open>Update\<close> is never invoked: the \<open>Get\<close> is the only call added to
  the log, and the cluster is as the \<open>Get\<close> left it.
\<close>

theorem UpdateDeploymentConfig_absent:
  fixes client :: "('s, 'o) ctrlClient"
  assumes "key = \<lparr>NamespacedName.Name = DeploymentConfig.Name deploymentConfig,
                  Namespace = DeploymentConfig.Namespace deploymentConfig\<rparr>"
    and "Get client key emptyDeploymentConfig (cluster w) = ((obj, Some e), s)"
    and "IsNotFound e"
  shows "UpdateDeploymentConfig deploymentConfig client w
           = (Some e, \<lparr>cluster = s, calls = calls w @ [GetCall key emptyDeploymentConfig]\<rparr>)
         \<and> (\<forall>arg. UpdateCall arg \<in> set (calls (snd (UpdateDeploymentConfig deploymentConfig client w)))
               \<longrightarrow> UpdateCall arg \<in> set (calls w))"
  using assms by (simp add: UpdateDeploymentConfig_def GetDeploymentConfig_def clientGet_def)

theorem UpdateDeploymentConfig_absent_witness:
  "Get fakeClient \<lparr>NamespacedName.Name = ''argocd-server'', Namespace = ''argocd''\<rparr>
       emptyDeploymentConfig (cluster emptyCluster) = ((emptyDeploymentConfig, Some notFound), [])
   \<and> IsNotFound notFound
   \<and> UpdateDeploymentConfig server fakeClient emptyCluster
     = (Some notFound,
        \<lparr>cluster = [],
         calls = [GetCall \<lparr>NamespacedName.Name = ''argocd-server'', Namespace = ''argocd''\<rparr>
                    emptyDeploymentConfig]\<rparr>)"
proof -
  let ?key = "\<lparr>NamespacedName.Name = ''argocd-server'', Namespace = ''argocd''\<rparr>"
  have key: "?key = \<lparr>NamespacedName.Name = DeploymentConfig.Name server,
                      Namespace = DeploymentConfig.Namespace server\<rparr>"
    by (simp add: server_def)
  have absent: "Get fakeClient ?key emptyDeploymentConfig (cluster emptyCluster)
                  = ((emptyDeploymentConfig, Some notFound), [])"
    by (simp add: fakeClient_def emptyCluster_def)
  have nf: "IsNotFound notFound"
    by (simp add: notFound_def)
  have calls: "calls emptyCluster = []"
    by (simp add: emptyCluster_def)
  from UpdateDeploymentConfig_absent [OF key absent nf]
  have "UpdateDeploymentConfig server fakeClient emptyCluster
     = (Some notFound, \<lparr>cluster = [], calls = [GetCall ?key emptyDeploymentConfig]\<rparr>)"
    unfolding calls by simp
  with absent nf show ?thesis by simp
qed

text \<open>
  Claim C3. When the preliminary \<open>Get\<close> fails with an error that \<open>IsNotFound\<close> accepts (a
  status of reason NotFound, a status of no known reason with code 404, or an error that
  wraps one), \<open>DeleteDeploymentConfig\<close> returns a nil error and the client's \<open>Delete\<close> is
  not invoked (the \<open>Get\<close> is the only call added to the log). Any other error of the
  \<open>Get\<close> is returned to the caller. When the \<open>Get\<close> succeeds, \<open>Delete\<close> is called on the
  object that was found and its result is returned, so that any error of \<open>Delete\<close>
  reaches the caller.
\<close>

theorem DeleteDeploymentConfig_errors:
  fixes client :: "('s, 'o) ctrlClient"
  assumes "key = \<lparr>NamespacedName.Name = name, Namespace = namespace\<rparr>"
    and "Get client key emptyDeploymentConfig (cluster w) = ((obj, err), s)"
  shows "(\<forall>e. err = Some e \<and> IsNotFound e \<longrightarrow>
            DeleteDeploymentConfig name namespace client w
              = (None, \<lparr>cluster = s, calls = calls w @ [GetCall key emptyDeploymentConfig]\<rparr>)
            \<and> (\<forall>arg. DeleteCall arg \<in> set (calls (snd (DeleteDeploymentConfig name namespace client w)))
                  \<longrightarrow> DeleteCall arg \<in> set (calls w)))
         \<and> (\<forall>e. err = Some e \<and> \<not> IsNotFound e \<longrightarrow>
            fst (DeleteDeploymentConfig name namespace client w) = Some e)
         \<and> (err = None \<longrightarrow>
            fst (DeleteDeploymentConfig name namespace client w) = fst (Delete client (Some obj) s)
            \<and> calls (snd (DeleteDeploymentConfig name namespace client w))
                = calls w @ [GetCall key emptyDeploymentConfig, DeleteCall (Some obj)])"
  using assms
  by (auto simp: DeleteDeploymentConfig_def GetDeploymentConfig_def clientGet_def clientDelete_def
        split: prod.splits)

theorem DeleteDeploymentConfig_errors_witness:
  "DeleteDeploymentConfig ''argocd-server'' ''argocd'' fakeClient emptyCluster
     = (None,
        \<lparr>cluster = [],
         calls = [GetCall \<lparr>NamespacedName.Name = ''argocd-server'', Namespace = ''argocd''\<rparr>
                    emptyDeploymentConfig]\<rparr>)
   \<and> fst (DeleteDeploymentConfig ''argocd-server'' ''argocd'' brokenClient oneServer)
     = Some unreachable
   \<and> fst (DeleteDeploymentConfig ''argocd-server'' ''argocd''
            (fakeClient\<lparr>Delete := Delete brokenClient\<rparr>) oneServer)
     = Some unreachable
   \<and> fst (DeleteDeploymentConfig ''argocd-server'' ''argocd'' fakeClient oneServer) = None
   \<and> calls (snd (DeleteDeploymentConfig ''argocd-server'' ''argocd'' fakeClient oneServer))
     = [GetCall \<lparr>NamespacedName.Name = ''argocd-server'', Namespace = ''argocd''\<rparr>
          emptyDeploymentConfig, DeleteCall (Some server)]
   \<and> DeleteDeploymentConfig ''argocd-server'' ''argocd''
         (getFails (StatusError StatusReasonUnknown 404 ''no reason'')) oneServer
     = (None,
        \<lparr>cluster = [(keyOf server, server)],
         calls = [GetCall \<lparr>NamespacedName.Name = ''argocd-server'', Namespace = ''argocd''\<rparr>
                    emptyDeploymentConfig]\<rparr>)
   \<and> DeleteDeploymentConfig ''argocd-server'' ''argocd''
         (getFails (wrapError ''get failed: deploymentconfigs not found'' notFound)) oneServer
     = (None,
        \<lparr>cluster = [(keyOf server, server)],
         calls = [GetCall \<lparr>NamespacedName.Name = ''argocd-server'', Namespace = ''argocd''\<rparr>
                    emptyDeploymentConfig]\<rparr>)
   \<and> fst (DeleteDeploymentConfig ''argocd-server'' ''argocd''
         (getFails (StatusError ''Conflict'' 404 ''conflict'')) oneServer)
     = Some (StatusError ''Conflict'' 404 ''conflict'')
   \<and> fst (DeleteDeploymentConfig ''argocd-server'' ''argocd''
         (getFails (StatusError StatusReasonUnknown 500 ''no reason'')) oneServer)
     = Some (StatusError StatusReasonUnknown 500 ''no reason'')"
proof -
  let ?key = "\<lparr>NamespacedName.Name = ''argocd-server'', Namespace = ''argocd''\<rparr>"
  let ?noDelete = "fakeClient\<lparr>Delete := Delete brokenClient\<rparr>"
  have absent: "Get fakeClient ?key emptyDeploymentConfig (cluster emptyCluster)
                  = ((emptyDeploymentConfig, Some notFound), [])"
    by (simp add: fakeClient_def emptyCluster_def)
  have broken: "Get brokenClient ?key emptyDeploymentConfig (cluster oneServer)
                  = ((emptyDeploymentConfig, Some unreachable), [(keyOf server, server)])"
    by (simp add: brokenClient_def oneServer_def)
  have present: "Get fakeClient ?key emptyDeploymentConfig (cluster oneServer)
                  = ((server, None), [(keyOf server, server)])"
    by (simp add: fakeClient_def oneServer_def keyOf_def server_def)
  have present': "Get ?noDelete ?key emptyDeploymentConfig (cluster oneServer)
                  = ((server, None), [(keyOf server, server)])"
    by (simp add: fakeClient_def oneServer_def keyOf_def server_def)
  have fails: "Get (getFails e) ?key emptyDeploymentConfig (cluster oneServer)
                  = ((emptyDeploymentConfig, Some e), [(keyOf server, server)])" for e
    by (simp add: getFails_def oneServer_def)
  have calls: "calls emptyCluster = []" "calls oneServer = []"
    by (simp_all add: emptyCluster_def oneServer_def)
  from DeleteDeploymentConfig_errors [OF refl absent]
  have 1: "DeleteDeploymentConfig ''argocd-server'' ''argocd'' fakeClient emptyCluster
     = (None, \<lparr>cluster = [], calls = [GetCall ?key emptyDeploymentConfig]\<rparr>)"
    unfolding calls by (simp add: notFound_def)
  from DeleteDeploymentConfig_errors [OF refl broken]
  have 2: "fst (DeleteDeploymentConfig ''argocd-server'' ''argocd'' brokenClient oneServer)
     = Some unreachable"
    by (simp add: unreachable_def)
  from DeleteDeploymentConfig_errors [OF refl present']
  have 3: "fst (DeleteDeploymentConfig ''argocd-server'' ''argocd'' ?noDelete oneServer)
     = Some unreachable"
    by (simp add: brokenClient_def)
  from DeleteDeploymentConfig_errors [OF refl present]
  have 4: "fst (DeleteDeploymentConfig ''argocd-server'' ''argocd'' fakeClient oneServer) = None
     \<and> calls (snd (DeleteDeploymentConfig ''argocd-server'' ''argocd'' fakeClient oneServer))
       = [GetCall ?key emptyDeploymentConfig, DeleteCall (Some server)]"
    unfolding calls by (simp add: fakeClient_def keyOf_def server_def)
  from DeleteDeploymentConfig_errors [OF refl fails]
  have 5: "DeleteDeploymentConfig ''argocd-server'' ''argocd''
         (getFails (StatusError StatusReasonUnknown 404 ''no reason'')) oneServer
     = (None, \<lparr>cluster = [(keyOf server, server)],
               calls = [GetCall ?key emptyDeploymentConfig]\<rparr>)"
    unfolding calls by (simp add: knownReasons_def)
  from DeleteDeploymentConfig_errors [OF refl fails]
  have 6: "DeleteDeploymentConfig ''argocd-server'' ''argocd''
         (getFails (wrapError ''get failed: deploymentconfigs not found'' notFound)) oneServer
     = (None, \<lparr>cluster = [(keyOf server, server)],
               calls = [GetCall ?key emptyDeploymentConfig]\<rparr>)"
    unfolding calls by (simp add: notFound_def)
  from DeleteDeploymentConfig_errors [OF refl fails]
  have 7: "fst (DeleteDeploymentConfig ''argocd-server'' ''argocd''
         (getFails (StatusError ''Conflict'' 404 ''conflict'')) oneServer)
     = Some (StatusError ''Conflict'' 404 ''conflict'')"
    by (simp add: knownReasons_def)
  from DeleteDeploymentConfig_errors [OF refl fails]
  have 8: "fst (DeleteDeploymentConfig ''argocd-server'' ''argocd''
         (getFails (StatusError StatusReasonUnknown 500 ''no reason'')) oneServer)
     = Some (StatusError StatusReasonUnknown 500 ''no reason'')"
    by simp
  from 1 2 3 4 5 6 7 8 show ?thesis by simp
qed

end
